theory Spec2Isabelle
  imports Main "HOL-Library.Word"
begin

section \<open>JavaScript values used by the authentication glue\<close>

text \<open>
  A JavaScript string is a sequence of UTF-16 code units, and \<open>.length\<close> (which
  zod's \<open>min(3)\<close> reads) counts code units.  String literals of the source are ASCII
  and are written through \<open>js\<close>.
\<close>

type_synonym jsstring = "16 word list"

definition js :: "string \<Rightarrow> jsstring" where
  "js s = map of_char s"

text \<open>
  Truthiness of a value that is a string, \<open>null\<close> or \<open>undefined\<close>
  (\<open>None\<close> stands for both): only a non-empty string is truthy.
\<close>

definition truthy :: "jsstring option \<Rightarrow> bool" where
  "truthy v = (case v of None \<Rightarrow> False | Some s \<Rightarrow> s \<noteq> [])"

text \<open>The JavaScript \<open>a || b\<close> on such a value with a string default.\<close>

definition or_else :: "jsstring option \<Rightarrow> jsstring \<Rightarrow> jsstring" where
  "or_else v d = (case v of None \<Rightarrow> d | Some s \<Rightarrow> if s \<noteq> [] then s else d)"

text \<open>
  A value caught by a \<open>catch\<close> clause.  The source looks at three things only: whether
  the value is truthy (\<open>error && ...\<close>), its \<open>code\<close> property compared with
  \<open>===\<close> to a string (\<open>None\<close> when the property is absent or not a string), and the
  text that a template literal \<open>${error}\<close> yields.  A falsy value (\<open>null\<close>,
  \<open>undefined\<close>, \<open>0\<close>, the empty string) carries no property; a truthy one is an
  \<open>Error\<close> object or any other value.
\<close>

datatype thrown =
    Falsy jsstring
  | Truthy "jsstring option" jsstring

fun is_truthy :: "thrown \<Rightarrow> bool" where
  "is_truthy (Falsy text) = False"
| "is_truthy (Truthy code text) = True"

fun err_code :: "thrown \<Rightarrow> jsstring option" where
  "err_code (Falsy text) = None"
| "err_code (Truthy code text) = code"

fun rendering :: "thrown \<Rightarrow> jsstring" where
  "rendering (Falsy text) = text"
| "rendering (Truthy code text) = text"

section \<open>The admin initializer (src/firebase/admin.ts)\<close>

text \<open>
  \<open>s.replace(/\\n/g, "\n")\<close>: the pattern is the two code units backslash (0x5C) and
  \<open>n\<close> (0x6E); the scan runs left to right, each match is replaced by one line feed
  (0x0A) and the scan resumes after the match.
\<close>

definition backslash :: "16 word" where
  "backslash = 0x5C"

definition letter_n :: "16 word" where
  "letter_n = 0x6E"

definition line_feed :: "16 word" where
  "line_feed = 0x0A"

fun replace_escaped_newlines :: "jsstring \<Rightarrow> jsstring" where
  "replace_escaped_newlines (a # b # rest) =
     (if a = backslash \<and> b = letter_n
      then line_feed # replace_escaped_newlines rest
      else a # replace_escaped_newlines (b # rest))"
| "replace_escaped_newlines [a] = [a]"
| "replace_escaped_newlines [] = []"

text \<open>Does the two-unit sequence backslash, \<open>n\<close> occur in the string?\<close>

fun has_escaped_newline :: "jsstring \<Rightarrow> bool" where
  "has_escaped_newline (a # b # rest) =
     ((a = backslash \<and> b = letter_n) \<or> has_escaped_newline (b # rest))"
| "has_escaped_newline [a] = False"
| "has_escaped_newline [] = False"

record process_env =
  FIREBASE_PROJECT_ID :: "jsstring option"
  FIREBASE_CLIENT_EMAIL :: "jsstring option"
  FIREBASE_PRIVATE_KEY :: "jsstring option"

record service_account =
  projectId :: "jsstring option"
  clientEmail :: "jsstring option"
  privateKey :: "jsstring option"

text \<open>
  \<open>initFirebaseAdmin\<close>: \<open>apps\<close> is \<open>admin.apps\<close>, the list of the apps initialised so far
  (each stands for the credential it was initialised with).  Three calls belong to the
  SDK and may throw: \<open>cert\<close> is \<open>admin.credential.cert\<close>, and \<open>admin_auth\<close>,
  \<open>admin_firestore\<close> are \<open>admin.auth()\<close> and \<open>admin.firestore()\<close> of the return
  statement, which depend on the apps that exist when they are called (they raise when
  there is no default app).  When an app exists already, nothing is constructed.  The
  optional chaining \<open>?.replace\<close> leaves an absent variable absent.  The result is the
  app list after the call and the two handles.
\<close>

record ('a, 'd) admin_handles =
  auth :: 'a
  db :: 'd

definition initFirebaseAdmin ::
  "(service_account \<Rightarrow> thrown + 'c) \<Rightarrow> ('c list \<Rightarrow> thrown + 'a) \<Rightarrow> ('c list \<Rightarrow> thrown + 'd) \<Rightarrow>
   process_env \<Rightarrow> 'c list \<Rightarrow> thrown + 'c list \<times> ('a, 'd) admin_handles" where
  "initFirebaseAdmin cert admin_auth admin_firestore env apps =
     (case (if length apps = 0 then
              (case cert \<lparr> projectId = FIREBASE_PROJECT_ID env,
                           clientEmail = FIREBASE_CLIENT_EMAIL env,
                           privateKey = map_option replace_escaped_newlines
                                          (FIREBASE_PRIVATE_KEY env) \<rparr> of
                 Inl e \<Rightarrow> Inl e
               | Inr credential \<Rightarrow> Inr (apps @ [credential]))
            else Inr apps) of
        Inl e \<Rightarrow> Inl e
      | Inr apps' \<Rightarrow>
          (case admin_auth apps' of
             Inl e \<Rightarrow> Inl e
           | Inr a \<Rightarrow>
               (case admin_firestore apps' of
                  Inl e \<Rightarrow> Inl e
                | Inr d \<Rightarrow> Inr (apps', \<lparr> auth = a, db = d \<rparr>))))"

section \<open>The credential form (src/components/AuthForm.tsx)\<close>

subsection \<open>Data\<close>

datatype form_type = SignIn | SignUp

text \<open>
  The form values (\<open>z.infer<typeof formSchema>\<close>): \<open>name\<close> is \<open>string | undefined\<close>,
  the other two are strings.
\<close>

record form_data =
  name :: "jsstring option"
  email :: jsstring
  password :: jsstring

text \<open>
  The provider's user handle.  \<open>user_email\<close> and \<open>displayName\<close> are \<open>string | null\<close>;
  \<open>getIdToken\<close> is the outcome of awaiting \<open>user.getIdToken()\<close>: it rejects, or
  resolves to a token (\<open>None\<close>: no value at all).
\<close>

record user_handle =
  uid :: jsstring
  user_email :: "jsstring option"
  displayName :: "jsstring option"
  getIdToken :: "thrown + jsstring option"

text \<open>
  The object a provider call resolves to, as the source reads it: \<open>.user\<close>, and, through
  the cast to \<open>any\<close>, \<open>.additionalUserInfo?.isNewUser\<close> (\<open>None\<close>: the property is
  absent; the flag is kept up to truthiness).
\<close>

record additional_user_info =
  isNewUser :: "bool option"

record credential_object =
  user :: user_handle
  additionalUserInfo :: "additional_user_info option"

record sign_up_params =
  su_uid :: jsstring
  su_name :: "jsstring option"
  su_email :: "jsstring option"
  su_password :: jsstring

record sign_in_params =
  si_email :: "jsstring option"
  si_idToken :: jsstring

record action_result =
  success :: bool
  message :: jsstring

text \<open>
  Everything outside the component that one run talks to: the three provider calls and
  the two remote actions of \<open>@/lib/actions/auth.action\<close>.  Each either rejects
  (\<open>Inl\<close>) or resolves (\<open>Inr\<close>).  The result of \<open>signIn\<close> has any shape \<open>'r\<close>.
\<close>

record 'r world =
  createUserWithEmailAndPassword :: "jsstring \<Rightarrow> jsstring \<Rightarrow> thrown + credential_object"
  signInWithEmailAndPassword :: "jsstring \<Rightarrow> jsstring \<Rightarrow> thrown + credential_object"
  signInWithPopup :: "thrown + credential_object"
  signUp :: "sign_up_params \<Rightarrow> thrown + action_result"
  signIn :: "sign_in_params \<Rightarrow> thrown + 'r"

text \<open>What a run does, in order: calls made and effects on the page.\<close>

datatype event =
    CallCreateUser jsstring jsstring
  | CallSignInWithEmail jsstring jsstring
  | CallSignInWithPopup
  | CallGetIdToken jsstring
  | CallSignUp sign_up_params
  | CallSignIn sign_in_params
  | ToastError jsstring
  | ToastSuccess jsstring
  | RouterPush jsstring
  | ConsoleLog thrown
  | ConsoleError jsstring thrown

subsection \<open>The schema\<close>

datatype form_field = NameField | EmailField | PasswordField

datatype issue = Required | TooShort nat | InvalidEmail

text \<open>
  \<open>authFormSchema\<close>: the issues zod reports, field by field.  \<open>isEmail\<close> is the test
  behind \<open>z.string().email()\<close>, which is zod's and is taken as a parameter.
\<close>

definition string_min :: "form_field \<Rightarrow> nat \<Rightarrow> jsstring option \<Rightarrow> (form_field \<times> issue) list" where
  "string_min f n v =
     (case v of None \<Rightarrow> [(f, Required)]
      | Some s \<Rightarrow> if length s < n then [(f, TooShort n)] else [])"

definition authFormSchema ::
  "form_type \<Rightarrow> (jsstring \<Rightarrow> bool) \<Rightarrow> form_data \<Rightarrow> (form_field \<times> issue) list" where
  "authFormSchema type isEmail data =
     (if type = SignUp then string_min NameField 3 (name data) else [])
     @ (if isEmail (email data) then [] else [(EmailField, InvalidEmail)])
     @ string_min PasswordField 3 (Some (password data))"

subsection \<open>The submit handler\<close>

text \<open>
  Each \<open>await\<close> either resolves or rejects; a rejection anywhere in the \<open>try\<close> block
  goes to the \<open>catch\<close> clause.  Past the guard \<open>if (!idToken)\<close> the token is a
  non-empty string, which \<open>the\<close> reads.
\<close>

definition onSubmit_catch :: "thrown \<Rightarrow> event list" where
  "onSubmit_catch error =
     [ConsoleLog error, ToastError (js ''There was an error: '' @ rendering error)]"

definition onSubmit :: "form_type \<Rightarrow> 'r world \<Rightarrow> form_data \<Rightarrow> event list" where
  "onSubmit type w data =
     (if type = SignUp then
        CallCreateUser (email data) (password data) #
        (case createUserWithEmailAndPassword w (email data) (password data) of
           Inl error \<Rightarrow> onSubmit_catch error
         | Inr userCredential \<Rightarrow>
             (let params = \<lparr> su_uid = uid (user userCredential), su_name = name data,
                              su_email = Some (email data), su_password = password data \<rparr>
              in CallSignUp params #
                 (case signUp w params of
                    Inl error \<Rightarrow> onSubmit_catch error
                  | Inr result \<Rightarrow>
                      if \<not> success result then [ToastError (message result)]
                      else [ToastSuccess (js ''Account created successfully. Please sign in.''),
                            RouterPush (js ''/sign-in'')])))
      else
        CallSignInWithEmail (email data) (password data) #
        (case signInWithEmailAndPassword w (email data) (password data) of
           Inl error \<Rightarrow> onSubmit_catch error
         | Inr userCredential \<Rightarrow>
             CallGetIdToken (uid (user userCredential)) #
             (case getIdToken (user userCredential) of
                Inl error \<Rightarrow> onSubmit_catch error
              | Inr idToken \<Rightarrow>
                  if \<not> truthy idToken then [ToastError (js ''Sign in Failed. Please try again.'')]
                  else
                    (let params = \<lparr> si_email = Some (email data), si_idToken = the idToken \<rparr>
                     in CallSignIn params #
                        (case signIn w params of
                           Inl error \<Rightarrow> onSubmit_catch error
                         | Inr result \<Rightarrow>
                             [ToastSuccess (js ''Signed in successfully.''),
                              RouterPush (js ''/'')])))))"

subsection \<open>The federated (Google) handler\<close>

definition popup_closed_by_user :: jsstring where
  "popup_closed_by_user = js ''auth/popup-closed-by-user''"

definition cancelled_message :: jsstring where
  "cancelled_message = js ''Sign-in cancelled. The popup was closed.''"

definition generic_google_message :: "thrown \<Rightarrow> jsstring" where
  "generic_google_message error = js ''Google Sign-In failed: '' @ rendering error"

definition handleGoogleSignIn_catch :: "thrown \<Rightarrow> event list" where
  "handleGoogleSignIn_catch error =
     [ConsoleError (js ''Google Sign-In Error:'') error,
      ToastError (if is_truthy error \<and> err_code error = Some popup_closed_by_user
                  then cancelled_message
                  else generic_google_message error)]"

text \<open>\<open>(userCredential as any).additionalUserInfo?.isNewUser\<close>, up to truthiness.\<close>

definition read_isNewUser :: "credential_object \<Rightarrow> bool" where
  "read_isNewUser userCredential =
     (case additionalUserInfo userCredential of
        None \<Rightarrow> False
      | Some info \<Rightarrow> (case isNewUser info of None \<Rightarrow> False | Some b \<Rightarrow> b))"

definition google_signIn_tail :: "'r world \<Rightarrow> user_handle \<Rightarrow> jsstring \<Rightarrow> event list" where
  "google_signIn_tail w u idToken =
     (let params = \<lparr> si_email = user_email u, si_idToken = idToken \<rparr>
      in CallSignIn params #
         (case signIn w params of
            Inl error \<Rightarrow> handleGoogleSignIn_catch error
          | Inr result \<Rightarrow>
              [ToastSuccess (js ''Signed in successfully with Google.''),
               RouterPush (js ''/'')]))"

definition handleGoogleSignIn :: "'r world \<Rightarrow> event list" where
  "handleGoogleSignIn w =
     CallSignInWithPopup #
     (case signInWithPopup w of
        Inl error \<Rightarrow> handleGoogleSignIn_catch error
      | Inr userCredential \<Rightarrow>
          (let u = user userCredential; newUser = read_isNewUser userCredential
           in CallGetIdToken (uid u) #
              (case getIdToken u of
                 Inl error \<Rightarrow> handleGoogleSignIn_catch error
               | Inr idToken \<Rightarrow>
                   if \<not> truthy idToken
                   then [ToastError (js ''Google Sign-in Failed. Please try again.'')]
                   else if newUser then
                     (let params = \<lparr> su_uid = uid u,
                                      su_name = Some (or_else (displayName u) (js ''User'')),
                                      su_email = user_email u,
                                      su_password = [] \<rparr>
                      in CallSignUp params #
                         (case signUp w params of
                            Inl error \<Rightarrow> handleGoogleSignIn_catch error
                          | Inr result \<Rightarrow>
                              (if \<not> success result
                               then [ToastError
                                       (or_else (Some (message result))
                                          (js ''Failed to finalize account creation in database.''))]
                               else [])
                              @ google_signIn_tail w u (the idToken)))
                   else google_signIn_tail w u (the idToken))))"

subsection \<open>Submission through the form\<close>

text \<open>
  Modelled from the spec: \<open>form.handleSubmit\<close> and \<open>zodResolver\<close> are library code
  (react-hook-form), not in the repository.  The spec says of validation: "On validation
  failure, remain in Idle, surface field-level errors, no network call occurs"; on
  success the handler runs with the values.  The result is the field errors shown and
  the events of the run.
\<close>

definition handleSubmit ::
  "form_type \<Rightarrow> (jsstring \<Rightarrow> bool) \<Rightarrow> 'r world \<Rightarrow> form_data \<Rightarrow> (form_field \<times> issue) list \<times> event list" where
  "handleSubmit type isEmail w data =
     (let errors = authFormSchema type isEmail data
      in if errors = [] then ([], onSubmit type w data) else (errors, []))"

subsection \<open>The provider's declared result type\<close>

text \<open>
  Modelled from the spec: the declaration of \<open>UserCredential\<close> belongs to the provider's
  modular SDK (\<open>firebase/auth\<close>) and is not in the repository.  It declares the three
  members below and no \<open>additionalUserInfo\<close>, which is why the source reaches that
  property through a cast to \<open>any\<close>.  \<open>as_any\<close> is that cast applied to an object
  with the declared members only: reading the undeclared property finds nothing.
\<close>

datatype operation_type = LINK | REAUTHENTICATE | SIGN_IN

record UserCredential =
  uc_user :: user_handle
  providerId :: "jsstring option"
  operationType :: operation_type

definition as_any :: "UserCredential \<Rightarrow> credential_object" where
  "as_any userCredential = \<lparr> user = uc_user userCredential, additionalUserInfo = None \<rparr>"

section \<open>Sample inputs\<close>

text \<open>
  A user handle whose token retrieval resolves to the given token, and a world in which
  every provider call resolves to that user and both remote actions return the given
  result.  \<open>contains_at\<close> is a stand-in for the e-mail test: the string has an \<open>@\<close>.
\<close>

definition example_user :: "jsstring \<Rightarrow> user_handle" where
  "example_user token =
     \<lparr> uid = js ''u1'', user_email = Some (js ''ann@example.com''), displayName = None,
       getIdToken = Inr (Some token) \<rparr>"

definition example_world ::
  "user_handle \<Rightarrow> additional_user_info option \<Rightarrow> action_result \<Rightarrow> action_result world" where
  "example_world u info result =
     \<lparr> createUserWithEmailAndPassword = (\<lambda>e p. Inr \<lparr> user = u, additionalUserInfo = None \<rparr>),
       signInWithEmailAndPassword = (\<lambda>e p. Inr \<lparr> user = u, additionalUserInfo = None \<rparr>),
       signInWithPopup = Inr \<lparr> user = u, additionalUserInfo = info \<rparr>,
       signUp = (\<lambda>p. Inr result),
       signIn = (\<lambda>p. Inr result) \<rparr>"

definition example_data :: form_data where
  "example_data = \<lparr> name = Some (js ''Ann''), email = js ''ann@example.com'', password = js ''pw1'' \<rparr>"

definition contains_at :: "jsstring \<Rightarrow> bool" where
  "contains_at s = (0x40 \<in> set s)"

text \<open>
  The error the provider raises when the popup is closed, a credential with the declared
  members only, and the first federated sign-in of a Google account: the popup resolves
  to a credential with the declared members, and a token is obtained.
\<close>

definition example_popup_error :: thrown where
  "example_popup_error =
     Truthy (Some (js ''auth/popup-closed-by-user''))
       (js ''FirebaseError: Firebase: Error (auth/popup-closed-by-user).'')"

definition example_declared_credential :: UserCredential where
  "example_declared_credential =
     \<lparr> uc_user = example_user (js ''tok''), providerId = Some (js ''google.com''),
       operationType = SIGN_IN \<rparr>"

definition first_google_credential :: UserCredential where
  "first_google_credential =
     \<lparr> uc_user = \<lparr> uid = js ''g1'', user_email = Some (js ''new@example.com''),
                   displayName = Some (js ''New User''),
                   getIdToken = Inr (Some (js ''idtoken1'')) \<rparr>,
       providerId = Some (js ''google.com''),
       operationType = SIGN_IN \<rparr>"

definition first_google_world :: "action_result world" where
  "first_google_world =
     (example_world (uc_user first_google_credential) None
        \<lparr> success = True, message = js ''Account created successfully. Please sign in.'' \<rparr>)
     \<lparr> signInWithPopup := Inr (as_any first_google_credential) \<rparr>"

section \<open>Key normalisation in the admin initializer\<close>

lemma backslash_neq_letter_n: "backslash \<noteq> letter_n"
  by (simp add: backslash_def letter_n_def)

lemma line_feed_neq_backslash: "line_feed \<noteq> backslash"
  by (simp add: backslash_def line_feed_def)

lemma line_feed_neq_letter_n: "line_feed \<noteq> letter_n"
  by (simp add: letter_n_def line_feed_def)

lemma replace_escaped_newlines_append:
  "replace_escaped_newlines (xs @ backslash # letter_n # ys) =
     replace_escaped_newlines xs @ line_feed # replace_escaped_newlines ys"
  by (induction xs rule: replace_escaped_newlines.induct)
     (simp_all add: backslash_neq_letter_n)

lemma replace_escaped_newlines_unchanged:
  "\<not> has_escaped_newline s \<Longrightarrow> replace_escaped_newlines s = s"
  by (induction s rule: replace_escaped_newlines.induct) auto

lemma has_escaped_newline_Cons:
  "has_escaped_newline (c # t) =
     ((c = backslash \<and> (\<exists>r. t = letter_n # r)) \<or> has_escaped_newline t)"
  by (cases t) auto

lemma replace_escaped_newlines_head:
  "replace_escaped_newlines (b # rest) = letter_n # r \<Longrightarrow> b = letter_n"
  by (cases rest) (auto simp: line_feed_neq_letter_n split: if_splits)

lemma replace_escaped_newlines_clean:
  "\<not> has_escaped_newline (replace_escaped_newlines s)"
proof (induction s rule: replace_escaped_newlines.induct)
  case (1 a b rest)
  show ?case
  proof (cases "a = backslash \<and> b = letter_n")
    case True
    with 1 show ?thesis
      by (simp add: has_escaped_newline_Cons line_feed_neq_backslash)
  next
    case False
    with 1 show ?thesis
      by (auto simp: has_escaped_newline_Cons dest: replace_escaped_newlines_head)
  qed
qed simp_all


text \<open>
  Claim C8.  When the private-key variable is set and no app exists yet, the admin
  initializer hands \<open>admin.credential.cert\<close> the key with every backslash-n pair
  replaced by a line feed: the result has no such pair left, each occurrence in the
  value becomes one line feed with the text on both sides normalised in the same way,
  and a value without such a pair is passed as it is.
\<close>

theorem initFirebaseAdmin_private_key:
  assumes "FIREBASE_PRIVATE_KEY env = Some key"
  shows "initFirebaseAdmin cert admin_auth admin_firestore env [] =
           (case cert \<lparr> projectId = FIREBASE_PROJECT_ID env,
                        clientEmail = FIREBASE_CLIENT_EMAIL env,
                        privateKey = Some (replace_escaped_newlines key) \<rparr> of
              Inl e \<Rightarrow> Inl e
            | Inr c \<Rightarrow>
                (case admin_auth [c] of
                   Inl e \<Rightarrow> Inl e
                 | Inr a \<Rightarrow>
                     (case admin_firestore [c] of
                        Inl e \<Rightarrow> Inl e
                      | Inr d \<Rightarrow> Inr ([c], \<lparr> auth = a, db = d \<rparr>))))
         \<and> \<not> has_escaped_newline (replace_escaped_newlines key)
         \<and> (key = xs @ backslash # letter_n # ys \<longrightarrow>
              replace_escaped_newlines key =
                replace_escaped_newlines xs @ line_feed # replace_escaped_newlines ys)
         \<and> (\<not> has_escaped_newline key \<longrightarrow> replace_escaped_newlines key = key)"
  using assms
  by (simp add: initFirebaseAdmin_def replace_escaped_newlines_append
      replace_escaped_newlines_clean replace_escaped_newlines_unchanged split: sum.splits)

theorem initFirebaseAdmin_private_key_witness:
  "initFirebaseAdmin Inr Inr Inr
     \<lparr> FIREBASE_PROJECT_ID = None, FIREBASE_CLIENT_EMAIL = None,
       FIREBASE_PRIVATE_KEY = Some [0x41, 0x5C, 0x6E, 0x42] \<rparr> [] =
   Inr ([\<lparr> projectId = None, clientEmail = None, privateKey = Some [0x41, 0x0A, 0x42] \<rparr>],
        \<lparr> auth = [\<lparr> projectId = None, clientEmail = None,
                     privateKey = Some [0x41, 0x0A, 0x42] \<rparr>],
          db = [\<lparr> projectId = None, clientEmail = None,
                   privateKey = Some [0x41, 0x0A, 0x42] \<rparr>] \<rparr>)"
  using initFirebaseAdmin_private_key
    [of "\<lparr> FIREBASE_PROJECT_ID = None, FIREBASE_CLIENT_EMAIL = None,
            FIREBASE_PRIVATE_KEY = Some [0x41, 0x5C, 0x6E, 0x42] \<rparr>"
        "[0x41, 0x5C, 0x6E, 0x42]" Inr Inr Inr "[0x41]" "[0x42]"]
  by (simp add: backslash_def letter_n_def line_feed_def)

section \<open>The form submission\<close>

lemma js_Nil: "(js s = []) = (s = [])"
  by (simp add: js_def)

text \<open>
  Claim C1.  When the input fails the schema of the form type (the e-mail test fails, the
  password has fewer than 3 code units, or, for sign-up, the name is missing or has
  fewer than 3), the submit handler does not run: the run has no event at all (no
  provider call, no remote action, no notification, no navigation), and the errors
  shown are not empty and name exactly the offending fields.
\<close>

theorem invalid_input_blocks_submission:
  assumes "\<not> isEmail (email data) \<or> length (password data) < 3
           \<or> (type = SignUp \<and> (\<forall>n. name data = Some n \<longrightarrow> length n < 3))"
  shows "snd (handleSubmit type isEmail w data) = []
         \<and> fst (handleSubmit type isEmail w data) \<noteq> []
         \<and> ((EmailField, InvalidEmail) \<in> set (fst (handleSubmit type isEmail w data))
              \<longleftrightarrow> \<not> isEmail (email data))
         \<and> ((PasswordField, TooShort 3) \<in> set (fst (handleSubmit type isEmail w data))
              \<longleftrightarrow> length (password data) < 3)
         \<and> ((\<exists>i. (NameField, i) \<in> set (fst (handleSubmit type isEmail w data)))
              \<longleftrightarrow> (type = SignUp \<and> (\<forall>n. name data = Some n \<longrightarrow> length n < 3)))"
  using assms
  by (auto simp: handleSubmit_def authFormSchema_def string_min_def Let_def
      split: option.splits if_splits)

theorem invalid_input_blocks_submission_witness:
  "handleSubmit SignUp contains_at (example_world (example_user (js ''tok'')) None \<lparr> success = True, message = [] \<rparr>)
     \<lparr> name = Some (js ''Al''), email = js ''ann.example.com'', password = js ''pw'' \<rparr>
   = ([(NameField, TooShort 3), (EmailField, InvalidEmail), (PasswordField, TooShort 3)], [])"
  using invalid_input_blocks_submission
    [of contains_at "\<lparr> name = Some (js ''Al''), email = js ''ann.example.com'', password = js ''pw'' \<rparr>"
        SignUp "example_world (example_user (js ''tok'')) None \<lparr> success = True, message = [] \<rparr>"]
  by (simp add: handleSubmit_def authFormSchema_def string_min_def contains_at_def js_def)

text \<open>
  Claim C2.  Sign-up: when credential creation resolves and the remote \<open>signUp\<close> returns
  \<open>success: false\<close> with message \<open>X\<close>, the run is the two calls followed by the
  error notification \<open>X\<close>, and it contains no navigation.
\<close>

theorem signUp_failure_shows_message:
  assumes "createUserWithEmailAndPassword w (email data) (password data) = Inr userCredential"
    and "signUp w \<lparr> su_uid = uid (user userCredential), su_name = name data,
                    su_email = Some (email data), su_password = password data \<rparr> = Inr result"
    and "\<not> success result"
    and "message result = X"
  shows "onSubmit SignUp w data =
           [CallCreateUser (email data) (password data),
            CallSignUp \<lparr> su_uid = uid (user userCredential), su_name = name data,
                         su_email = Some (email data), su_password = password data \<rparr>,
            ToastError X]
         \<and> (\<forall>target. RouterPush target \<notin> set (onSubmit SignUp w data))"
  using assms by (simp add: onSubmit_def Let_def)

theorem signUp_failure_shows_message_witness:
  "onSubmit SignUp
     (example_world (example_user (js ''tok'')) None \<lparr> success = False, message = js ''X'' \<rparr>)
     example_data =
   [CallCreateUser (js ''ann@example.com'') (js ''pw1''),
    CallSignUp \<lparr> su_uid = js ''u1'', su_name = Some (js ''Ann''),
                 su_email = Some (js ''ann@example.com''), su_password = js ''pw1'' \<rparr>,
    ToastError (js ''X'')]"
  using signUp_failure_shows_message
    [of "example_world (example_user (js ''tok'')) None \<lparr> success = False, message = js ''X'' \<rparr>"
        example_data "\<lparr> user = example_user (js ''tok''), additionalUserInfo = None \<rparr>"
        "\<lparr> success = False, message = js ''X'' \<rparr>" "js ''X''"]
  by (simp add: example_world_def example_user_def example_data_def)

text \<open>
  Claim C3.  Sign-in: when credential verification resolves and token retrieval yields a
  falsy token, the fixed "Sign in Failed" notification is shown and the remote
  \<open>signIn\<close> is not called.
\<close>

theorem signIn_without_token_fails:
  assumes "signInWithEmailAndPassword w (email data) (password data) = Inr userCredential"
    and "getIdToken (user userCredential) = Inr idToken"
    and "\<not> truthy idToken"
  shows "onSubmit SignIn w data =
           [CallSignInWithEmail (email data) (password data),
            CallGetIdToken (uid (user userCredential)),
            ToastError (js ''Sign in Failed. Please try again.'')]
         \<and> (\<forall>params. CallSignIn params \<notin> set (onSubmit SignIn w data))"
  using assms by (simp add: onSubmit_def)

theorem signIn_without_token_fails_witness:
  "onSubmit SignIn
     (example_world (example_user []) None \<lparr> success = True, message = [] \<rparr>) example_data =
   [CallSignInWithEmail (js ''ann@example.com'') (js ''pw1''),
    CallGetIdToken (js ''u1''),
    ToastError (js ''Sign in Failed. Please try again.'')]"
  using signIn_without_token_fails
    [of "example_world (example_user []) None \<lparr> success = True, message = [] \<rparr>"
        example_data "\<lparr> user = example_user [], additionalUserInfo = None \<rparr>" "Some []"]
  by (simp add: example_world_def example_user_def example_data_def truthy_def)

text \<open>
  Claim C4.  Sign-in: when verification resolves and a token is obtained, whatever the
  remote \<open>signIn\<close> returns, the run ends with the success confirmation and the
  navigation to the home view; replacing the returned value by any other leaves the run
  unchanged.
\<close>

theorem signIn_result_not_inspected:
  assumes "signInWithEmailAndPassword w (email data) (password data) = Inr userCredential"
    and "getIdToken (user userCredential) = Inr (Some idToken)"
    and "idToken \<noteq> []"
    and "signIn w \<lparr> si_email = Some (email data), si_idToken = idToken \<rparr> = Inr result"
  shows "onSubmit SignIn w data =
           [CallSignInWithEmail (email data) (password data),
            CallGetIdToken (uid (user userCredential)),
            CallSignIn \<lparr> si_email = Some (email data), si_idToken = idToken \<rparr>,
            ToastSuccess (js ''Signed in successfully.''),
            RouterPush (js ''/'')]
         \<and> onSubmit SignIn (w\<lparr> signIn := \<lambda>params. Inr other \<rparr>) data = onSubmit SignIn w data"
  using assms by (simp add: onSubmit_def truthy_def Let_def)

theorem signIn_result_not_inspected_witness:
  "onSubmit SignIn
     (example_world (example_user (js ''tok'')) None
        \<lparr> success = False, message = js ''Failed to log into account.'' \<rparr>) example_data =
   [CallSignInWithEmail (js ''ann@example.com'') (js ''pw1''),
    CallGetIdToken (js ''u1''),
    CallSignIn \<lparr> si_email = Some (js ''ann@example.com''), si_idToken = js ''tok'' \<rparr>,
    ToastSuccess (js ''Signed in successfully.''),
    RouterPush (js ''/'')]"
  using signIn_result_not_inspected
    [of "example_world (example_user (js ''tok'')) None
           \<lparr> success = False, message = js ''Failed to log into account.'' \<rparr>"
        example_data "\<lparr> user = example_user (js ''tok''), additionalUserInfo = None \<rparr>"
        "js ''tok''" "\<lparr> success = False, message = js ''Failed to log into account.'' \<rparr>"]
  by (simp add: example_world_def example_user_def example_data_def js_Nil)

text \<open>
  Claim C7.  Sign-up: when credential creation resolves and the remote \<open>signUp\<close> returns
  \<open>success: true\<close>, the confirmation is shown and the navigation target is
  \<open>/sign-in\<close>.
\<close>

theorem signUp_success_navigates_to_sign_in:
  assumes "createUserWithEmailAndPassword w (email data) (password data) = Inr userCredential"
    and "signUp w \<lparr> su_uid = uid (user userCredential), su_name = name data,
                    su_email = Some (email data), su_password = password data \<rparr> = Inr result"
    and "success result"
  shows "onSubmit SignUp w data =
           [CallCreateUser (email data) (password data),
            CallSignUp \<lparr> su_uid = uid (user userCredential), su_name = name data,
                         su_email = Some (email data), su_password = password data \<rparr>,
            ToastSuccess (js ''Account created successfully. Please sign in.''),
            RouterPush (js ''/sign-in'')]"
  using assms by (simp add: onSubmit_def Let_def)

theorem signUp_success_navigates_to_sign_in_witness:
  "onSubmit SignUp
     (example_world (example_user (js ''tok'')) None \<lparr> success = True, message = [] \<rparr>)
     example_data =
   [CallCreateUser (js ''ann@example.com'') (js ''pw1''),
    CallSignUp \<lparr> su_uid = js ''u1'', su_name = Some (js ''Ann''),
                 su_email = Some (js ''ann@example.com''), su_password = js ''pw1'' \<rparr>,
    ToastSuccess (js ''Account created successfully. Please sign in.''),
    RouterPush (js ''/sign-in'')]"
  using signUp_success_navigates_to_sign_in
    [of "example_world (example_user (js ''tok'')) None \<lparr> success = True, message = [] \<rparr>"
        example_data "\<lparr> user = example_user (js ''tok''), additionalUserInfo = None \<rparr>"
        "\<lparr> success = True, message = [] \<rparr>"]
  by (simp add: example_world_def example_user_def example_data_def)

text \<open>
  Claim C10.  For the sign-in form type the submitted name has no effect: two
  submissions that differ in the name only give the same run, through the handler and
  through the validated submission alike.
\<close>

theorem signIn_ignores_name:
  "onSubmit SignIn w (data\<lparr> name := n1 \<rparr>) = onSubmit SignIn w (data\<lparr> name := n2 \<rparr>)
   \<and> handleSubmit SignIn isEmail w (data\<lparr> name := n1 \<rparr>) =
       handleSubmit SignIn isEmail w (data\<lparr> name := n2 \<rparr>)"
  by (simp add: handleSubmit_def authFormSchema_def onSubmit_def Let_def split: sum.splits)

section \<open>The federated sign-in\<close>

lemma generic_neq_cancelled: "generic_google_message error \<noteq> cancelled_message"
  by (simp add: generic_google_message_def cancelled_message_def js_def)

lemma CallSignUp_notin_catch: "CallSignUp params \<notin> set (handleGoogleSignIn_catch error)"
  by (simp add: handleGoogleSignIn_catch_def)

lemma CallSignUp_notin_tail: "CallSignUp params \<notin> set (google_signIn_tail w u t)"
  by (simp add: google_signIn_tail_def Let_def CallSignUp_notin_catch split: sum.splits)

text \<open>
  What the handler is written to do for a new user: when the flag it reads is truthy and
  a non-empty token is obtained, the remote \<open>signUp\<close> is called third, with the uid, the
  display name or \<open>User\<close>, the e-mail and an empty password; when that call returns, a
  reported failure adds an error notification, and in either case \<open>signIn\<close> is called
  next.
\<close>

lemma flagged_new_user_calls_signUp:
  assumes "signInWithPopup w = Inr userCredential"
    and "read_isNewUser userCredential"
    and "getIdToken (user userCredential) = Inr (Some idToken)"
    and "idToken \<noteq> []"
    and "signUpParams = \<lparr> su_uid = uid (user userCredential),
                           su_name = Some (or_else (displayName (user userCredential)) (js ''User'')),
                           su_email = user_email (user userCredential),
                           su_password = [] \<rparr>"
    and "signInParams = \<lparr> si_email = user_email (user userCredential), si_idToken = idToken \<rparr>"
  shows "take 3 (handleGoogleSignIn w) =
           [CallSignInWithPopup, CallGetIdToken (uid (user userCredential)), CallSignUp signUpParams]
         \<and> (displayName (user userCredential) = None \<longrightarrow> su_name signUpParams = Some (js ''User''))
         \<and> (\<forall>result. signUp w signUpParams = Inr result \<longrightarrow>
              handleGoogleSignIn w =
                [CallSignInWithPopup, CallGetIdToken (uid (user userCredential)),
                 CallSignUp signUpParams]
                @ (if success result then []
                   else [ToastError (or_else (Some (message result))
                                       (js ''Failed to finalize account creation in database.''))])
                @ CallSignIn signInParams
                # (case signIn w signInParams of
                     Inl error \<Rightarrow> handleGoogleSignIn_catch error
                   | Inr signedIn \<Rightarrow>
                       [ToastSuccess (js ''Signed in successfully with Google.''),
                        RouterPush (js ''/'')]))"
proof -
  have start: "take 3 (handleGoogleSignIn w) =
           [CallSignInWithPopup, CallGetIdToken (uid (user userCredential)), CallSignUp signUpParams]"
    using assms by (simp add: handleGoogleSignIn_def Let_def truthy_def)
  have fallback: "displayName (user userCredential) = None \<longrightarrow> su_name signUpParams = Some (js ''User'')"
    using assms(5) by (simp add: or_else_def)
  have rest: "handleGoogleSignIn w =
                [CallSignInWithPopup, CallGetIdToken (uid (user userCredential)),
                 CallSignUp signUpParams]
                @ (if success result then []
                   else [ToastError (or_else (Some (message result))
                                       (js ''Failed to finalize account creation in database.''))])
                @ CallSignIn signInParams
                # (case signIn w signInParams of
                     Inl error \<Rightarrow> handleGoogleSignIn_catch error
                   | Inr signedIn \<Rightarrow>
                       [ToastSuccess (js ''Signed in successfully with Google.''),
                        RouterPush (js ''/'')])"
    if "signUp w signUpParams = Inr result" for result
    using assms that
    by (simp add: handleGoogleSignIn_def google_signIn_tail_def Let_def truthy_def)
  from start fallback rest show ?thesis
    by blast
qed

text \<open>
  Claim C5.  The claim asks that a federated sign-in of a newly created user calls the
  remote \<open>signUp\<close> before \<open>signIn\<close>.  The handler looks for the new-user report in
  \<open>additionalUserInfo\<close>, which the credential the popup resolves to does not have.  On
  the first sign-in of a Google account, with a token obtained, the run goes from the
  token to \<open>signIn\<close>, the success notification and the home view: \<open>signUp\<close> is not
  called.
\<close>

theorem first_google_sign_in_skips_signUp:
  "handleGoogleSignIn first_google_world =
     [CallSignInWithPopup,
      CallGetIdToken (js ''g1''),
      CallSignIn \<lparr> si_email = Some (js ''new@example.com''), si_idToken = js ''idtoken1'' \<rparr>,
      ToastSuccess (js ''Signed in successfully with Google.''),
      RouterPush (js ''/'')]"
  by (simp add: handleGoogleSignIn_def google_signIn_tail_def first_google_world_def
      first_google_credential_def example_world_def as_any_def read_isNewUser_def
      truthy_def js_Nil Let_def)

text \<open>
  Claim C6.  Federated branch: when the popup call fails with the code
  \<open>auth/popup-closed-by-user\<close>, the run is the call, the log entry and the fixed
  cancellation notification.  Every other error raised in the branch (an error whose
  code is another one, or that has none), whichever call raises it (the popup, the token
  retrieval, the remote \<open>signUp\<close>, the remote \<open>signIn\<close>), ends the run with the log
  entry and the generic notification built from the error's text, and that notification
  is never equal to the cancellation one.
\<close>

theorem popup_closed_shows_cancellation:
  assumes "signInWithPopup w = Inl error"
    and "err_code error = Some popup_closed_by_user"
  shows "handleGoogleSignIn w =
           [CallSignInWithPopup,
            ConsoleError (js ''Google Sign-In Error:'') error,
            ToastError (js ''Sign-in cancelled. The popup was closed.'')]
         \<and> (\<forall>(w' :: 'r world) other.
               err_code other \<noteq> Some popup_closed_by_user \<longrightarrow>
               js ''Google Sign-In failed: '' @ rendering other
                 \<noteq> js ''Sign-in cancelled. The popup was closed.''
               \<and> (signInWithPopup w' = Inl other \<longrightarrow>
                    handleGoogleSignIn w' =
                      [CallSignInWithPopup,
                       ConsoleError (js ''Google Sign-In Error:'') other,
                       ToastError (js ''Google Sign-In failed: '' @ rendering other)])
               \<and> (\<forall>c. signInWithPopup w' = Inr c \<and> getIdToken (user c) = Inl other \<longrightarrow>
                    handleGoogleSignIn w' =
                      [CallSignInWithPopup,
                       CallGetIdToken (uid (user c)),
                       ConsoleError (js ''Google Sign-In Error:'') other,
                       ToastError (js ''Google Sign-In failed: '' @ rendering other)])
               \<and> (\<forall>c t. signInWithPopup w' = Inr c \<and> getIdToken (user c) = Inr (Some t) \<and> t \<noteq> []
                      \<and> read_isNewUser c
                      \<and> signUp w' \<lparr> su_uid = uid (user c),
                                     su_name = Some (or_else (displayName (user c)) (js ''User'')),
                                     su_email = user_email (user c),
                                     su_password = [] \<rparr> = Inl other \<longrightarrow>
                    handleGoogleSignIn w' =
                      [CallSignInWithPopup,
                       CallGetIdToken (uid (user c)),
                       CallSignUp \<lparr> su_uid = uid (user c),
                                    su_name = Some (or_else (displayName (user c)) (js ''User'')),
                                    su_email = user_email (user c),
                                    su_password = [] \<rparr>,
                       ConsoleError (js ''Google Sign-In Error:'') other,
                       ToastError (js ''Google Sign-In failed: '' @ rendering other)])
               \<and> (\<forall>c t. signInWithPopup w' = Inr c \<and> getIdToken (user c) = Inr (Some t) \<and> t \<noteq> []
                      \<and> \<not> read_isNewUser c
                      \<and> signIn w' \<lparr> si_email = user_email (user c), si_idToken = t \<rparr> = Inl other \<longrightarrow>
                    handleGoogleSignIn w' =
                      [CallSignInWithPopup,
                       CallGetIdToken (uid (user c)),
                       CallSignIn \<lparr> si_email = user_email (user c), si_idToken = t \<rparr>,
                       ConsoleError (js ''Google Sign-In Error:'') other,
                       ToastError (js ''Google Sign-In failed: '' @ rendering other)])
               \<and> (\<forall>c t result. signInWithPopup w' = Inr c \<and> getIdToken (user c) = Inr (Some t) \<and> t \<noteq> []
                      \<and> read_isNewUser c
                      \<and> signUp w' \<lparr> su_uid = uid (user c),
                                     su_name = Some (or_else (displayName (user c)) (js ''User'')),
                                     su_email = user_email (user c),
                                     su_password = [] \<rparr> = Inr result
                      \<and> signIn w' \<lparr> si_email = user_email (user c), si_idToken = t \<rparr> = Inl other \<longrightarrow>
                    handleGoogleSignIn w' =
                      [CallSignInWithPopup,
                       CallGetIdToken (uid (user c)),
                       CallSignUp \<lparr> su_uid = uid (user c),
                                    su_name = Some (or_else (displayName (user c)) (js ''User'')),
                                    su_email = user_email (user c),
                                    su_password = [] \<rparr>]
                      @ (if success result then []
                         else [ToastError (or_else (Some (message result))
                                 (js ''Failed to finalize account creation in database.''))])
                      @ [CallSignIn \<lparr> si_email = user_email (user c), si_idToken = t \<rparr>,
                         ConsoleError (js ''Google Sign-In Error:'') other,
                         ToastError (js ''Google Sign-In failed: '' @ rendering other)]))"
proof -
  from assms(2) have "is_truthy error"
    by (cases error) simp_all
  with assms have cancelled: "handleGoogleSignIn w =
           [CallSignInWithPopup,
            ConsoleError (js ''Google Sign-In Error:'') error,
            ToastError (js ''Sign-in cancelled. The popup was closed.'')]"
    by (simp add: handleGoogleSignIn_def handleGoogleSignIn_catch_def cancelled_message_def)
  have distinct: "js ''Google Sign-In failed: '' @ rendering other
                    \<noteq> js ''Sign-in cancelled. The popup was closed.''" for other
    using generic_neq_cancelled [of other]
    by (simp add: generic_google_message_def cancelled_message_def)
  have others: "\<forall>(w' :: 'r world) other.
               err_code other \<noteq> Some popup_closed_by_user \<longrightarrow>
               js ''Google Sign-In failed: '' @ rendering other
                 \<noteq> js ''Sign-in cancelled. The popup was closed.''
               \<and> (signInWithPopup w' = Inl other \<longrightarrow>
                    handleGoogleSignIn w' =
                      [CallSignInWithPopup,
                       ConsoleError (js ''Google Sign-In Error:'') other,
                       ToastError (js ''Google Sign-In failed: '' @ rendering other)])
               \<and> (\<forall>c. signInWithPopup w' = Inr c \<and> getIdToken (user c) = Inl other \<longrightarrow>
                    handleGoogleSignIn w' =
                      [CallSignInWithPopup,
                       CallGetIdToken (uid (user c)),
                       ConsoleError (js ''Google Sign-In Error:'') other,
                       ToastError (js ''Google Sign-In failed: '' @ rendering other)])
               \<and> (\<forall>c t. signInWithPopup w' = Inr c \<and> getIdToken (user c) = Inr (Some t) \<and> t \<noteq> []
                      \<and> read_isNewUser c
                      \<and> signUp w' \<lparr> su_uid = uid (user c),
                                     su_name = Some (or_else (displayName (user c)) (js ''User'')),
                                     su_email = user_email (user c),
                                     su_password = [] \<rparr> = Inl other \<longrightarrow>
                    handleGoogleSignIn w' =
                      [CallSignInWithPopup,
                       CallGetIdToken (uid (user c)),
                       CallSignUp \<lparr> su_uid = uid (user c),
                                    su_name = Some (or_else (displayName (user c)) (js ''User'')),
                                    su_email = user_email (user c),
                                    su_password = [] \<rparr>,
                       ConsoleError (js ''Google Sign-In Error:'') other,
                       ToastError (js ''Google Sign-In failed: '' @ rendering other)])
               \<and> (\<forall>c t. signInWithPopup w' = Inr c \<and> getIdToken (user c) = Inr (Some t) \<and> t \<noteq> []
                      \<and> \<not> read_isNewUser c
                      \<and> signIn w' \<lparr> si_email = user_email (user c), si_idToken = t \<rparr> = Inl other \<longrightarrow>
                    handleGoogleSignIn w' =
                      [CallSignInWithPopup,
                       CallGetIdToken (uid (user c)),
                       CallSignIn \<lparr> si_email = user_email (user c), si_idToken = t \<rparr>,
                       ConsoleError (js ''Google Sign-In Error:'') other,
                       ToastError (js ''Google Sign-In failed: '' @ rendering other)])
               \<and> (\<forall>c t result. signInWithPopup w' = Inr c \<and> getIdToken (user c) = Inr (Some t) \<and> t \<noteq> []
                      \<and> read_isNewUser c
                      \<and> signUp w' \<lparr> su_uid = uid (user c),
                                     su_name = Some (or_else (displayName (user c)) (js ''User'')),
                                     su_email = user_email (user c),
                                     su_password = [] \<rparr> = Inr result
                      \<and> signIn w' \<lparr> si_email = user_email (user c), si_idToken = t \<rparr> = Inl other \<longrightarrow>
                    handleGoogleSignIn w' =
                      [CallSignInWithPopup,
                       CallGetIdToken (uid (user c)),
                       CallSignUp \<lparr> su_uid = uid (user c),
                                    su_name = Some (or_else (displayName (user c)) (js ''User'')),
                                    su_email = user_email (user c),
                                    su_password = [] \<rparr>]
                      @ (if success result then []
                         else [ToastError (or_else (Some (message result))
                                 (js ''Failed to finalize account creation in database.''))])
                      @ [CallSignIn \<lparr> si_email = user_email (user c), si_idToken = t \<rparr>,
                         ConsoleError (js ''Google Sign-In Error:'') other,
                         ToastError (js ''Google Sign-In failed: '' @ rendering other)])"
    by (intro allI impI conjI; (elim conjE)?;
        simp add: handleGoogleSignIn_def google_signIn_tail_def handleGoogleSignIn_catch_def
          generic_google_message_def Let_def truthy_def distinct)
  from cancelled others show ?thesis
    by (rule conjI)
qed

theorem popup_closed_shows_cancellation_witness:
  "handleGoogleSignIn
     ((example_world (example_user (js ''tok'')) None \<lparr> success = True, message = [] \<rparr>)
        \<lparr> signInWithPopup := Inl example_popup_error \<rparr>) =
   [CallSignInWithPopup,
    ConsoleError (js ''Google Sign-In Error:'') example_popup_error,
    ToastError (js ''Sign-in cancelled. The popup was closed.'')]"
proof -
  let ?w = "(example_world (example_user (js ''tok'')) None \<lparr> success = True, message = [] \<rparr>)
              \<lparr> signInWithPopup := Inl example_popup_error \<rparr>"
  have popup: "signInWithPopup ?w = Inl example_popup_error"
    by simp
  have code: "err_code example_popup_error = Some popup_closed_by_user"
    by (simp add: example_popup_error_def popup_closed_by_user_def)
  from popup_closed_shows_cancellation [OF popup code] show ?thesis
    by (rule conjunct1)
qed

text \<open>
  Claim C9.  Federated branch: when the popup call resolves to a credential with the
  declared members only, the new-user flag read through the cast is falsy, no run calls
  the remote \<open>signUp\<close>, and once a non-empty token is obtained the next event is the
  call of \<open>signIn\<close>.
\<close>

theorem declared_credential_never_new:
  assumes "signInWithPopup w = Inr (as_any userCredential)"
  shows "\<not> read_isNewUser (as_any userCredential)
         \<and> (\<forall>params. CallSignUp params \<notin> set (handleGoogleSignIn w))
         \<and> (\<forall>idToken. getIdToken (uc_user userCredential) = Inr (Some idToken) \<and> idToken \<noteq> [] \<longrightarrow>
              handleGoogleSignIn w =
                CallSignInWithPopup # CallGetIdToken (uid (uc_user userCredential))
                # CallSignIn \<lparr> si_email = user_email (uc_user userCredential), si_idToken = idToken \<rparr>
                # (case signIn w \<lparr> si_email = user_email (uc_user userCredential),
                                     si_idToken = idToken \<rparr> of
                     Inl error \<Rightarrow> handleGoogleSignIn_catch error
                   | Inr signedIn \<Rightarrow>
                       [ToastSuccess (js ''Signed in successfully with Google.''),
                        RouterPush (js ''/'')]))"
proof -
  have flag: "\<not> read_isNewUser (as_any userCredential)"
    by (simp add: read_isNewUser_def as_any_def)
  have never: "CallSignUp params \<notin> set (handleGoogleSignIn w)" for params
    using assms flag
    by (simp add: handleGoogleSignIn_def Let_def CallSignUp_notin_catch CallSignUp_notin_tail
        split: sum.splits)
  have direct: "handleGoogleSignIn w =
                CallSignInWithPopup # CallGetIdToken (uid (uc_user userCredential))
                # CallSignIn \<lparr> si_email = user_email (uc_user userCredential), si_idToken = idToken \<rparr>
                # (case signIn w \<lparr> si_email = user_email (uc_user userCredential),
                                     si_idToken = idToken \<rparr> of
                     Inl error \<Rightarrow> handleGoogleSignIn_catch error
                   | Inr signedIn \<Rightarrow>
                       [ToastSuccess (js ''Signed in successfully with Google.''),
                        RouterPush (js ''/'')])"
    if "getIdToken (uc_user userCredential) = Inr (Some idToken)" and "idToken \<noteq> []" for idToken
    using assms flag that
    by (simp add: handleGoogleSignIn_def google_signIn_tail_def Let_def truthy_def as_any_def)
  from flag never direct show ?thesis
    by blast
qed

theorem declared_credential_never_new_witness:
  "handleGoogleSignIn
     (example_world (example_user (js ''tok'')) None \<lparr> success = True, message = [] \<rparr>) =
   [CallSignInWithPopup, CallGetIdToken (js ''u1''),
    CallSignIn \<lparr> si_email = Some (js ''ann@example.com''), si_idToken = js ''tok'' \<rparr>,
    ToastSuccess (js ''Signed in successfully with Google.''),
    RouterPush (js ''/'')]"
proof -
  let ?w = "example_world (example_user (js ''tok'')) None \<lparr> success = True, message = [] \<rparr>"
  have popup: "signInWithPopup ?w = Inr (as_any example_declared_credential)"
    by (simp add: example_world_def as_any_def example_declared_credential_def)
  have token: "getIdToken (uc_user example_declared_credential) = Inr (Some (js ''tok''))
               \<and> js ''tok'' \<noteq> []"
    by (simp add: example_declared_credential_def example_user_def js_Nil)
  from declared_credential_never_new [OF popup] token
  have "handleGoogleSignIn ?w =
          CallSignInWithPopup # CallGetIdToken (uid (uc_user example_declared_credential))
          # CallSignIn \<lparr> si_email = user_email (uc_user example_declared_credential),
                          si_idToken = js ''tok'' \<rparr>
          # (case signIn ?w \<lparr> si_email = user_email (uc_user example_declared_credential),
                                si_idToken = js ''tok'' \<rparr> of
               Inl error \<Rightarrow> handleGoogleSignIn_catch error
             | Inr signedIn \<Rightarrow>
                 [ToastSuccess (js ''Signed in successfully with Google.''),
                  RouterPush (js ''/'')])"
    by blast
  then show ?thesis
    by (simp add: example_world_def example_declared_credential_def example_user_def)
qed

end
